theory Spec2Isabelle
  imports Complex_Main "HOL-Library.AList"
begin

section \<open>Data model (the type declarations of the repository)\<close>

text \<open>
  JavaScript values are embedded as follows. A \<open>number\<close> is a \<open>real\<close> (no rounding, no
  NaN). A \<open>string\<close> is a \<open>string\<close>; texts of the source that are not ASCII are written as
  their UTF-8 bytes. A \<open>Date\<close> is represented by its ISO-8601 text, the form in which
  \<open>JSON.stringify\<close> writes it; every \<open>new Date()\<close> of the source is an argument of the
  operation that reads the clock, one argument per read, and so is every \<open>generateId()\<close>.
  An optional field is an \<open>option\<close>. A string-keyed \<open>Record\<close> is an association list in
  insertion order, which is the order in which JavaScript enumerates its (non-numeric) keys;
  a lookup sees the entries of the object itself, not the properties every JavaScript
  object inherits. Field names carry a prefix naming their interface, since several
  interfaces share names such as \<open>id\<close> and \<open>content\<close>.
\<close>

type_synonym date = string

datatype AIProvider = deepseek | aliyun | volcengine | kimi | claude

datatype role = user | assistant | system

record ModelConfig =
  cfg_id :: string
  cfg_provider :: AIProvider
  cfg_modelId :: string
  cfg_maxTokens :: "real option"
  cfg_temperature :: "real option"
  cfg_supportVision :: "bool option"
  cfg_costPerToken :: "real option"

record Message =
  msg_id :: string
  msg_role :: role
  msg_content :: string
  msg_timestamp :: date
  msg_images :: "string list option"

record ModelResponse =
  resp_modelId :: string
  resp_content :: string
  resp_loading :: bool
  resp_error :: "string option"
  resp_responseTime :: "real option"
  resp_tokens :: "real option"
  resp_cost :: "real option"
  resp_timestamp :: date

text \<open>\<open>Partial\<close> of a ModelResponse: \<open>Some v\<close> is a key that is present with value \<open>v\<close>.\<close>

record ModelResponse_updates =
  upd_modelId :: "string option"
  upd_content :: "string option"
  upd_loading :: "bool option"
  upd_error :: "string option"
  upd_responseTime :: "real option"
  upd_tokens :: "real option"
  upd_cost :: "real option"
  upd_timestamp :: "date option"

type_synonym responses = "(string \<times> (string \<times> ModelResponse) list) list"

record ChatSession =
  sess_id :: string
  sess_title :: "string option"
  sess_systemPrompt :: string
  sess_selectedModels :: "string list"
  sess_messages :: "Message list"
  sess_responses :: responses
  sess_createdAt :: date
  sess_updatedAt :: date
  sess_model :: string
  sess_provider :: AIProvider
  sess_tokenCount :: real
  sess_cost :: real
  sess_temperature :: real
  sess_maxTokens :: real

record AppState =
  apiKeys :: "AIProvider \<Rightarrow> string"
  availableModels :: "ModelConfig list"
  selectedModels :: "string list"
  currentSession :: "ChatSession option"
  sessions :: "ChatSession list"
  isLoading :: bool
  systemPrompt :: string
  totalTokens :: real
  totalCost :: real

subsection \<open>The model table (lib/models.ts)\<close>

text \<open>The display name of a model is left out.\<close>

definition model_config ::
  "string \<Rightarrow> AIProvider \<Rightarrow> string \<Rightarrow> real \<Rightarrow> real \<Rightarrow> bool \<Rightarrow> real \<Rightarrow> ModelConfig" where
  "model_config i p m maxT temp vision cost =
     \<lparr>cfg_id = i, cfg_provider = p, cfg_modelId = m, cfg_maxTokens = Some maxT,
      cfg_temperature = Some temp, cfg_supportVision = Some vision, cfg_costPerToken = Some cost\<rparr>"

definition AVAILABLE_MODELS :: "ModelConfig list" where
  "AVAILABLE_MODELS =
     [model_config ''deepseek-chat'' deepseek ''deepseek-chat'' 4096 (7 / 10) False (14 / 10000000),
      model_config ''deepseek-reasoner'' deepseek ''deepseek-reasoner'' 4096 (7 / 10) False (55 / 1000000),
      model_config ''qwen-turbo'' aliyun ''qwen-turbo'' 1500 (7 / 10) False (8 / 10000000),
      model_config ''qwen-plus'' aliyun ''qwen-plus'' 2000 (7 / 10) False (4 / 1000000),
      model_config ''qwen-max'' aliyun ''qwen-max'' 2000 (7 / 10) False (2 / 100000),
      model_config ''qwen2-57b-instruct'' aliyun ''qwen2-57b-a14b-instruct'' 2000 (7 / 10) False (1 / 1000000),
      model_config ''doubao-pro-32k'' volcengine ''ep-20250424184643-vjbdz'' 4096 (7 / 10) False (5 / 10000000),
      model_config ''doubao-pro-32k-241215'' volcengine ''ep-20250424184104-trxs8'' 4096 (7 / 10) False (5 / 10000000),
      model_config ''doubao-pro-256k'' volcengine ''doubao-pro-256k-241115'' 4096 (7 / 10) False (1 / 1000000),
      model_config ''doubao-vision-pro'' volcengine ''doubao-1.5-vision-pro-250328'' 4096 (7 / 10) True (2 / 1000000),
      model_config ''moonshot-v1-8k'' kimi ''moonshot-v1-8k'' 2048 (3 / 10) False (12 / 1000000),
      model_config ''moonshot-v1-32k'' kimi ''moonshot-v1-32k'' 8192 (3 / 10) False (24 / 1000000),
      model_config ''moonshot-v1-128k'' kimi ''moonshot-v1-128k'' 16384 (3 / 10) False (6 / 100000),
      model_config ''claude-sonnet-4-20250514'' claude ''claude-sonnet-4-20250514'' 4096 (7 / 10) False (3 / 1000000)]"

section \<open>The session store (src/store/index.ts)\<close>

subsection \<open>Model selection\<close>

definition toggleModel :: "string \<Rightarrow> AppState \<Rightarrow> AppState" where
  "toggleModel modelId state =
     (let isSelected = modelId \<in> set (selectedModels state);
          newSelectedModels =
            (if isSelected then filter (\<lambda>i. i \<noteq> modelId) (selectedModels state)
             else selectedModels state @ [modelId])
      in state\<lparr>selectedModels := newSelectedModels\<rparr>)"

subsection \<open>Response slots\<close>

text \<open>\<open>responses[modelId]?.[messageId]\<close>\<close>

definition lookup_response :: "responses \<Rightarrow> string \<Rightarrow> string \<Rightarrow> ModelResponse option" where
  "lookup_response rs modelId messageId =
     (case map_of rs modelId of None \<Rightarrow> None | Some inner \<Rightarrow> map_of inner messageId)"

text \<open>
  \<open>{...responses, [modelId]: {...responses[modelId], [messageId]: r}}\<close>: a key that is
  present keeps its place and takes the new value, a new key goes to the end; spreading
  \<open>undefined\<close> contributes nothing.
\<close>

definition put_response :: "responses \<Rightarrow> string \<Rightarrow> string \<Rightarrow> ModelResponse \<Rightarrow> responses" where
  "put_response rs modelId messageId r =
     AList.update modelId
       (AList.update messageId r (case map_of rs modelId of None \<Rightarrow> [] | Some inner \<Rightarrow> inner)) rs"

text \<open>The return value shared by the slot operations and \<open>addMessage\<close>: the updated
  session becomes the current session and replaces every list entry with its id.\<close>

definition commit_session :: "ChatSession \<Rightarrow> AppState \<Rightarrow> AppState" where
  "commit_session updatedSession state =
     state\<lparr>currentSession := Some updatedSession,
           sessions := map (\<lambda>s. if sess_id s = sess_id updatedSession then updatedSession else s)
                         (sessions state)\<rparr>"

definition addModelResponse :: "string \<Rightarrow> string \<Rightarrow> ModelResponse \<Rightarrow> date \<Rightarrow> AppState \<Rightarrow> AppState" where
  "addModelResponse modelId messageId response now state =
     (case currentSession state of
        None \<Rightarrow> state
      | Some cur \<Rightarrow>
          commit_session
            (cur\<lparr>sess_responses := put_response (sess_responses cur) modelId messageId response,
                 sess_updatedAt := now\<rparr>) state)"

text \<open>\<open>{...currentResponse, ...updates}\<close>\<close>

definition apply_updates :: "ModelResponse \<Rightarrow> ModelResponse_updates \<Rightarrow> ModelResponse" where
  "apply_updates r u =
     \<lparr>resp_modelId = (case upd_modelId u of None \<Rightarrow> resp_modelId r | Some v \<Rightarrow> v),
      resp_content = (case upd_content u of None \<Rightarrow> resp_content r | Some v \<Rightarrow> v),
      resp_loading = (case upd_loading u of None \<Rightarrow> resp_loading r | Some v \<Rightarrow> v),
      resp_error = (case upd_error u of None \<Rightarrow> resp_error r | Some v \<Rightarrow> Some v),
      resp_responseTime = (case upd_responseTime u of None \<Rightarrow> resp_responseTime r | Some v \<Rightarrow> Some v),
      resp_tokens = (case upd_tokens u of None \<Rightarrow> resp_tokens r | Some v \<Rightarrow> Some v),
      resp_cost = (case upd_cost u of None \<Rightarrow> resp_cost r | Some v \<Rightarrow> Some v),
      resp_timestamp = (case upd_timestamp u of None \<Rightarrow> resp_timestamp r | Some v \<Rightarrow> v)\<rparr>"

definition updateModelResponse ::
  "string \<Rightarrow> string \<Rightarrow> ModelResponse_updates \<Rightarrow> date \<Rightarrow> AppState \<Rightarrow> AppState" where
  "updateModelResponse modelId messageId updates now state =
     (case currentSession state of
        None \<Rightarrow> state
      | Some cur \<Rightarrow>
          (case lookup_response (sess_responses cur) modelId messageId of
             None \<Rightarrow> state
           | Some currentResponse \<Rightarrow>
               commit_session
                 (cur\<lparr>sess_responses :=
                        put_response (sess_responses cur) modelId messageId
                          (apply_updates currentResponse updates),
                      sess_updatedAt := now\<rparr>) state))"

definition appendToModelResponse :: "string \<Rightarrow> string \<Rightarrow> string \<Rightarrow> date \<Rightarrow> AppState \<Rightarrow> AppState" where
  "appendToModelResponse modelId messageId content now state =
     (case currentSession state of
        None \<Rightarrow> state
      | Some cur \<Rightarrow>
          (case lookup_response (sess_responses cur) modelId messageId of
             None \<Rightarrow> state
           | Some currentResponse \<Rightarrow>
               commit_session
                 (cur\<lparr>sess_responses :=
                        put_response (sess_responses cur) modelId messageId
                          (currentResponse\<lparr>resp_content := resp_content currentResponse @ content\<rparr>),
                      sess_updatedAt := now\<rparr>) state))"

text \<open>The slot \<open>(modelId, messageId)\<close> of the current session, if there is one.\<close>

definition current_slot :: "AppState \<Rightarrow> string \<Rightarrow> string \<Rightarrow> ModelResponse option" where
  "current_slot state modelId messageId =
     (case currentSession state of
        None \<Rightarrow> None
      | Some cur \<Rightarrow> lookup_response (sess_responses cur) modelId messageId)"

text \<open>A finite sequence of \<open>appendToModelResponse\<close> calls on one slot, each with its delta
  and its clock reading, in call order.\<close>

fun append_calls :: "string \<Rightarrow> string \<Rightarrow> (string \<times> date) list \<Rightarrow> AppState \<Rightarrow> AppState" where
  "append_calls modelId messageId [] state = state"
| "append_calls modelId messageId ((delta, now) # rest) state =
     append_calls modelId messageId rest (appendToModelResponse modelId messageId delta now state)"


subsection \<open>Sessions\<close>

text \<open>\<open>selectedModels[0] || 'deepseek-chat'\<close>\<close>

definition first_model :: "string list \<Rightarrow> string" where
  "first_model ms = (case ms of [] \<Rightarrow> ''deepseek-chat''
                     | m # _ \<Rightarrow> if m = [] then ''deepseek-chat'' else m)"

text \<open>\<open>generateId()\<close> and the two clock reads are arguments.\<close>

definition createNewSession :: "string \<Rightarrow> date \<Rightarrow> date \<Rightarrow> AppState \<Rightarrow> AppState" where
  "createNewSession newId createdAt updatedAt state =
     (let newSession =
            \<lparr>sess_id = newId,
             sess_title = None,
             sess_systemPrompt = systemPrompt state,
             sess_selectedModels = selectedModels state,
             sess_messages = [],
             sess_responses = [],
             sess_createdAt = createdAt,
             sess_updatedAt = updatedAt,
             sess_model = first_model (selectedModels state),
             sess_provider =
               (case find (\<lambda>m. cfg_id m = first_model (selectedModels state)) (availableModels state) of
                  None \<Rightarrow> deepseek | Some m \<Rightarrow> cfg_provider m),
             sess_tokenCount = 0,
             sess_cost = 0,
             sess_temperature = 7 / 10,
             sess_maxTokens = 4096\<rparr>
      in state\<lparr>currentSession := Some newSession, sessions := newSession # sessions state\<rparr>)"


text \<open>
  \<open>updateSessionTitle\<close> builds the list entries and the current session from separate
  object literals, each with its own \<open>new Date()\<close>: \<open>entryClock i\<close> is the reading taken for
  the list entry at position \<open>i\<close>, \<open>currentClock\<close> the one taken for the current session.
\<close>

definition updateSessionTitle ::
  "string \<Rightarrow> string \<Rightarrow> (nat \<Rightarrow> date) \<Rightarrow> date \<Rightarrow> AppState \<Rightarrow> AppState" where
  "updateSessionTitle sessionId title entryClock currentClock state =
     (let sessions' =
            map (\<lambda>(i, session).
                   if sess_id session = sessionId
                   then session\<lparr>sess_title := Some title, sess_updatedAt := entryClock i\<rparr>
                   else session)
                (enumerate 0 (sessions state));
          currentSession' =
            (case currentSession state of
               None \<Rightarrow> None
             | Some cur \<Rightarrow>
                 if sess_id cur = sessionId
                 then Some (cur\<lparr>sess_title := Some title, sess_updatedAt := currentClock\<rparr>)
                 else Some cur)
      in state\<lparr>sessions := sessions', currentSession := currentSession'\<rparr>)"

definition deleteSession :: "string \<Rightarrow> AppState \<Rightarrow> AppState" where
  "deleteSession sessionId state =
     state\<lparr>sessions := filter (\<lambda>s. sess_id s \<noteq> sessionId) (sessions state),
           currentSession :=
             (case currentSession state of
                None \<Rightarrow> None
              | Some cur \<Rightarrow> if sess_id cur = sessionId then None else Some cur)\<rparr>"

definition setLoading :: "bool \<Rightarrow> AppState \<Rightarrow> AppState" where
  "setLoading loading state = state\<lparr>isLoading := loading\<rparr>"

subsection \<open>Messages\<close>

text \<open>What \<open>addMessage\<close> reads from its environment: the results of \<open>generateId()\<close> and of
  each \<open>new Date()\<close>, in the order of the source.\<close>

record addMessage_env =
  env_sessionId :: string
  env_createdAt :: date
  env_updatedAt :: date
  env_messageId :: string
  env_timestamp :: date
  env_currentClock :: date
  env_entryClock :: "nat \<Rightarrow> date"

text \<open>
  The result of \<open>addMessage\<close>: the returned message id, the new state, and the call
  \<open>generateSessionTitle(sessionId, content)\<close> it starts, if any. That call is asynchronous:
  it suspends at its first \<open>await\<close> and changes the store only later, through
  \<open>updateSessionTitle\<close>.
\<close>

definition addMessage ::
  "string \<Rightarrow> string list option \<Rightarrow> addMessage_env \<Rightarrow> AppState
     \<Rightarrow> string \<times> AppState \<times> (string \<times> string) option" where
  "addMessage content images env state =
     (case currentSession state of
        None \<Rightarrow>
          (let state1 = createNewSession (env_sessionId env) (env_createdAt env) (env_updatedAt env) state
           in case currentSession state1 of
                None \<Rightarrow> ([], state1, None)
              | Some newSession \<Rightarrow>
                  (let message = \<lparr>msg_id = env_messageId env, msg_role = user, msg_content = content,
                                  msg_timestamp = env_timestamp env, msg_images = images\<rparr>
                   in (msg_id message,
                       state1\<lparr>currentSession :=
                                Some (newSession\<lparr>sess_messages := sess_messages newSession @ [message],
                                                 sess_updatedAt := env_currentClock env\<rparr>),
                              sessions :=
                                map (\<lambda>(i, s).
                                       if sess_id s = sess_id newSession
                                       then newSession\<lparr>sess_messages := sess_messages newSession @ [message],
                                                       sess_updatedAt := env_entryClock env i\<rparr>
                                       else s)
                                    (enumerate 0 (sessions state1))\<rparr>,
                       Some (sess_id newSession, content))))
      | Some cur \<Rightarrow>
          (let message = \<lparr>msg_id = env_messageId env, msg_role = user, msg_content = content,
                          msg_timestamp = env_timestamp env, msg_images = images\<rparr>;
               updatedSession = cur\<lparr>sess_messages := sess_messages cur @ [message],
                                    sess_updatedAt := env_currentClock env\<rparr>
           in (msg_id message,
               commit_session updatedSession state,
               if (sess_title cur = None \<or> sess_title cur = Some []) \<and> sess_messages cur = []
               then Some (sess_id cur, content) else None)))"

subsection \<open>The invariant linking the current session to the list\<close>

text \<open>Every list entry that carries the id of the current session is the current session.\<close>

definition in_sync :: "AppState \<Rightarrow> bool" where
  "in_sync state =
     (case currentSession state of
        None \<Rightarrow> True
      | Some cur \<Rightarrow> list_all (\<lambda>s. sess_id s = sess_id cur \<longrightarrow> s = cur) (sessions state))"

text \<open>The same, with the \<open>updatedAt\<close> stamp left out of the comparison.\<close>

definition in_sync_upto_updatedAt :: "AppState \<Rightarrow> bool" where
  "in_sync_upto_updatedAt state =
     (case currentSession state of
        None \<Rightarrow> True
      | Some cur \<Rightarrow>
          list_all (\<lambda>s. sess_id s = sess_id cur \<longrightarrow> s\<lparr>sess_updatedAt := sess_updatedAt cur\<rparr> = cur)
            (sessions state))"

subsection \<open>Example states\<close>

definition example_response :: ModelResponse where
  "example_response =
     \<lparr>resp_modelId = ''deepseek-chat'', resp_content = ''He'', resp_loading = True,
      resp_error = None, resp_responseTime = None, resp_tokens = None, resp_cost = None,
      resp_timestamp = ''2025-06-01T10:00:01.000Z''\<rparr>"

definition example_message :: Message where
  "example_message =
     \<lparr>msg_id = ''m1'', msg_role = user, msg_content = ''Hello'',
      msg_timestamp = ''2025-06-01T10:00:00.000Z'', msg_images = None\<rparr>"

definition example_session :: "string \<Rightarrow> string option \<Rightarrow> ChatSession" where
  "example_session sid title =
     \<lparr>sess_id = sid, sess_title = title, sess_systemPrompt = ''You are helpful.'',
      sess_selectedModels = [''deepseek-chat''], sess_messages = [example_message],
      sess_responses = [(''deepseek-chat'', [(''m1'', example_response)])],
      sess_createdAt = ''2025-06-01T10:00:00.000Z'', sess_updatedAt = ''2025-06-01T10:00:01.000Z'',
      sess_model = ''deepseek-chat'', sess_provider = deepseek, sess_tokenCount = 0,
      sess_cost = 0, sess_temperature = 7 / 10, sess_maxTokens = 4096\<rparr>"

text \<open>A session as \<open>createNewSession\<close> leaves it: no title, no messages, no responses.\<close>

definition fresh_session :: "string \<Rightarrow> ChatSession" where
  "fresh_session sid =
     \<lparr>sess_id = sid, sess_title = None, sess_systemPrompt = ''You are helpful.'',
      sess_selectedModels = [''deepseek-chat''], sess_messages = [],
      sess_responses = [],
      sess_createdAt = ''2025-06-01T09:00:00.000Z'', sess_updatedAt = ''2025-06-01T09:00:00.000Z'',
      sess_model = ''deepseek-chat'', sess_provider = deepseek, sess_tokenCount = 0,
      sess_cost = 0, sess_temperature = 7 / 10, sess_maxTokens = 4096\<rparr>"

definition example_state :: AppState where
  "example_state =
     \<lparr>apiKeys = (\<lambda>_. []), availableModels = AVAILABLE_MODELS,
      selectedModels = [''deepseek-chat''],
      currentSession = Some (example_session ''s1'' (Some ''Greeting'')),
      sessions = [example_session ''s1'' (Some ''Greeting''), fresh_session ''s2''],
      isLoading = False, systemPrompt = ''You are helpful.'', totalTokens = 0, totalCost = 0\<rparr>"

definition example_env :: addMessage_env where
  "example_env =
     \<lparr>env_sessionId = ''s9'', env_createdAt = ''2025-06-01T11:00:00.000Z'',
      env_updatedAt = ''2025-06-01T11:00:00.000Z'', env_messageId = ''m2'',
      env_timestamp = ''2025-06-01T11:00:00.000Z'', env_currentClock = ''2025-06-01T11:00:00.000Z'',
      env_entryClock = (\<lambda>i. ''2025-06-01T11:00:00.001Z'')\<rparr>"

section \<open>JavaScript values and JSON\<close>

text \<open>
  A parsed JSON value. An object is the list of its entries; a key is looked up with
  \<open>map_of\<close>. \<open>JSON.parse\<close> and \<open>JSON.stringify\<close>, and the conversions JavaScript applies
  when a value of another type is used as a string or as a number, are library functions of
  the language and enter as parameters.
\<close>

datatype json = JNull | JBool bool | JNum real | JStr string | JArr "json list"
  | JObj "(string \<times> json) list"

text \<open>Truthiness of a value; \<open>None\<close> is \<open>undefined\<close>.\<close>

fun truthy :: "json option \<Rightarrow> bool" where
  "truthy None = False"
| "truthy (Some JNull) = False"
| "truthy (Some (JBool b)) = b"
| "truthy (Some (JNum n)) = (n \<noteq> 0)"
| "truthy (Some (JStr s)) = (s \<noteq> [])"
| "truthy (Some (JArr xs)) = True"
| "truthy (Some (JObj kvs)) = True"

text \<open>\<open>x.key\<close> for a value \<open>x\<close> other than \<open>null\<close> (on \<open>null\<close> the access throws) and for the
  keys this program reads, none of which a string, number, boolean or array carries.\<close>

fun get_prop :: "json \<Rightarrow> string \<Rightarrow> json option" where
  "get_prop (JObj kvs) key = map_of kvs key"
| "get_prop j key = None"

text \<open>\<open>x?.key\<close>\<close>

fun opt_prop :: "json option \<Rightarrow> string \<Rightarrow> json option" where
  "opt_prop None key = None"
| "opt_prop (Some JNull) key = None"
| "opt_prop (Some j) key = get_prop j key"

text \<open>\<open>x?.[0]\<close>\<close>

fun opt_index0 :: "json option \<Rightarrow> json option" where
  "opt_index0 None = None"
| "opt_index0 (Some JNull) = None"
| "opt_index0 (Some (JArr xs)) = (case xs of [] \<Rightarrow> None | x # _ \<Rightarrow> Some x)"
| "opt_index0 (Some (JObj kvs)) = map_of kvs ''0''"
| "opt_index0 (Some (JStr s)) = (case s of [] \<Rightarrow> None | c # _ \<Rightarrow> Some (JStr [c]))"
| "opt_index0 (Some j) = None"

record js_library =
  JSON_parse :: "string \<Rightarrow> json option"
  JSON_stringify :: "json \<Rightarrow> string"
  text_of :: "json \<Rightarrow> string"
  number_of :: "json \<Rightarrow> real"

text \<open>A value used as a string, and as a number.\<close>

fun as_text :: "js_library \<Rightarrow> json \<Rightarrow> string" where
  "as_text js (JStr s) = s"
| "as_text js j = text_of js j"

fun as_number :: "js_library \<Rightarrow> json \<Rightarrow> real" where
  "as_number js (JNum n) = n"
| "as_number js j = number_of js j"

section \<open>The provider adapters (services/ai-service)\<close>

subsection \<open>Cost\<close>

text \<open>\<open>prices[model] || fallback\<close>\<close>

definition price_or :: "(string \<times> real) list \<Rightarrow> string \<Rightarrow> real \<Rightarrow> real" where
  "price_or prices model fallback =
     (case map_of prices model of
        None \<Rightarrow> fallback
      | Some p \<Rightarrow> if p = 0 then fallback else p)"

definition DeepSeek_prices :: "(string \<times> real) list" where
  "DeepSeek_prices = [(''deepseek-chat'', 14 / 100), (''deepseek-coder'', 14 / 100),
                      (''deepseek-reasoner'', 55)]"

definition DeepSeekService_calculateCost :: "real \<Rightarrow> string \<Rightarrow> real" where
  "DeepSeekService_calculateCost tokens model =
     (let pricePerMillion = price_or DeepSeek_prices model (14 / 100)
      in (tokens / 1000000) * pricePerMillion)"

definition Aliyun_prices :: "(string \<times> real) list" where
  "Aliyun_prices = [(''qwen-turbo'', 8 / 10), (''qwen-plus'', 4), (''qwen-max'', 20),
                    (''qwen2-57b-a14b-instruct'', 2)]"

definition AliyunService_calculateCost :: "real \<Rightarrow> string \<Rightarrow> real" where
  "AliyunService_calculateCost tokens model =
     (let pricePerMillion = price_or Aliyun_prices model 1
      in (tokens / 1000000) * pricePerMillion)"

definition Volcengine_prices :: "(string \<times> real) list" where
  "Volcengine_prices = [(''ep-20250424184643-vjbdz'', 5 / 10), (''doubao-pro-256k-241115'', 1),
                        (''doubao-1.5-vision-pro-250328'', 2)]"

definition VolcengineService_calculateCost :: "real \<Rightarrow> string \<Rightarrow> real" where
  "VolcengineService_calculateCost tokens model =
     (let pricePerMillion = price_or Volcengine_prices model 1
      in (tokens / 1000000) * pricePerMillion)"

definition Kimi_prices :: "(string \<times> real) list" where
  "Kimi_prices = [(''moonshot-v1-8k'', 12), (''moonshot-v1-32k'', 24), (''moonshot-v1-128k'', 60)]"

definition KimiService_calculateCost :: "real \<Rightarrow> string \<Rightarrow> real" where
  "KimiService_calculateCost tokens model =
     (let pricePerMillion = price_or Kimi_prices model 12
      in (tokens / 1000000) * pricePerMillion)"

definition Claude_prices :: "(string \<times> real) list" where
  "Claude_prices = [(''claude-sonnet-3-5-20240620'', 3 / 1000000), (''claude-opus-20240229'', 15 / 1000000),
                    (''claude-sonnet-20240229'', 3 / 1000000),
                    (''claude-haiku-20240307'', (25 / 100) / 1000000),
                    (''claude-3-sonnet-20240229'', 3 / 1000000)]"

definition ClaudeService_calculateCost :: "real \<Rightarrow> string \<Rightarrow> real" where
  "ClaudeService_calculateCost tokens model =
     (let pricePerMillion = price_or Claude_prices model (3 / 1000000)
      in tokens * pricePerMillion)"

subsection \<open>Streaming\<close>

record StreamChunk =
  chunk_content :: string
  chunk_finished :: bool
  chunk_tokens :: "real option"
  chunk_cost :: "real option"

record ChatResponse =
  cr_content :: string
  cr_tokens :: real
  cr_cost :: "real option"
  cr_responseTime :: real

text \<open>
  What \<open>fetch\<close> and the body reader deliver: the request fails; the status is not OK
  (status, status line and error body as text); there is no body to read; or the body
  yields its chunks, already decoded to text, and then closes (\<open>None\<close>) or fails with a
  read error (\<open>Some message\<close>).
\<close>

datatype fetch_outcome =
    FetchFailed string
  | NotOk string string string
  | NoBody
  | Body "string list" "string option"

text \<open>\<open>chunk.split('\n')\<close>\<close>

fun split_lines :: "string \<Rightarrow> string list" where
  "split_lines [] = [[]]"
| "split_lines (c # cs) =
     (if c = CHR 0x0A then [] # split_lines cs
      else (case split_lines cs of [] \<Rightarrow> [[c]] | l # ls \<Rightarrow> (c # l) # ls))"

text \<open>\<open>trim()\<close>, for the ASCII white space characters.\<close>

definition is_space :: "char \<Rightarrow> bool" where
  "is_space c = (c \<in> {CHR 0x09, CHR 0x0A, CHR 0x0B, CHR 0x0C, CHR 0x0D, CHR 0x20})"

definition trim :: "string \<Rightarrow> string" where
  "trim s = rev (dropWhile is_space (rev (dropWhile is_space s)))"

text \<open>The variables of the read loop, and the calls made to \<open>onChunk\<close> so far, oldest
  first.\<close>

record stream_state =
  st_content :: string
  st_tokens :: real
  st_emitted :: "StreamChunk list"

definition onChunk :: "StreamChunk \<Rightarrow> stream_state \<Rightarrow> stream_state" where
  "onChunk chunk st = st\<lparr>st_emitted := st_emitted st @ [chunk]\<rparr>"

definition terminal_chunk :: "real \<Rightarrow> StreamChunk" where
  "terminal_chunk tokens =
     \<lparr>chunk_content = [], chunk_finished = True, chunk_tokens = Some tokens, chunk_cost = None\<rparr>"

definition delta_chunk :: "string \<Rightarrow> StreamChunk" where
  "delta_chunk delta =
     \<lparr>chunk_content = delta, chunk_finished = False, chunk_tokens = None, chunk_cost = None\<rparr>"

text \<open>
  The body of the inner \<open>try\<close>: parse the event, forward a truthy delta, record a truthy
  token count. A parse error, and the TypeError of reading \<open>choices\<close> off \<open>null\<close>, are
  caught and the event is skipped.
\<close>

definition handle_event :: "js_library \<Rightarrow> string \<Rightarrow> stream_state \<Rightarrow> stream_state" where
  "handle_event js data st =
     (case JSON_parse js data of
        None \<Rightarrow> st
      | Some JNull \<Rightarrow> st
      | Some parsed \<Rightarrow>
          (let delta = opt_prop (opt_prop (opt_index0 (get_prop parsed ''choices'')) ''delta'') ''content'';
               st1 = (case delta of
                        None \<Rightarrow> st
                      | Some d \<Rightarrow>
                          if truthy (Some d)
                          then onChunk (delta_chunk (as_text js d))
                                 (st\<lparr>st_content := st_content st @ as_text js d\<rparr>)
                          else st);
               total = opt_prop (get_prop parsed ''usage'') ''total_tokens''
           in case total of
                None \<Rightarrow> st1
              | Some n \<Rightarrow> if truthy (Some n) then st1\<lparr>st_tokens := as_number js n\<rparr> else st1))"

text \<open>The \<open>for\<close> loop over the lines of one chunk; \<open>[DONE]\<close> reports the terminal chunk and
  leaves the loop (\<open>break\<close>), so the lines after it are not looked at.\<close>

fun handle_lines :: "js_library \<Rightarrow> string list \<Rightarrow> stream_state \<Rightarrow> stream_state" where
  "handle_lines js [] st = st"
| "handle_lines js (line # rest) st =
     (if take 6 line = ''data: '' then
        (let data = trim (drop 6 line)
         in if data = ''[DONE]'' then onChunk (terminal_chunk (st_tokens st)) st
            else if data \<noteq> [] then handle_lines js rest (handle_event js data st)
            else handle_lines js rest st)
      else handle_lines js rest st)"

text \<open>The \<open>while\<close> loop: one round per chunk read, until the body is done.\<close>

fun read_loop :: "js_library \<Rightarrow> string list \<Rightarrow> stream_state \<Rightarrow> stream_state" where
  "read_loop js [] st = st"
| "read_loop js (chunk # chunks) st = read_loop js chunks (handle_lines js (split_lines chunk) st)"

definition initial_stream_state :: stream_state where
  "initial_stream_state = \<lparr>st_content = [], st_tokens = 0, st_emitted = []\<rparr>"

definition word_error :: string where
  "word_error = [CHR 0xE9, CHR 0x94, CHR 0x99, CHR 0xE8, CHR 0xAF, CHR 0xAF]"

definition text_stream_request_failed :: string where
  "text_stream_request_failed =
     [CHR 0xE6, CHR 0xB5, CHR 0x81, CHR 0xE5, CHR 0xBC, CHR 0x8F, CHR 0xE8, CHR 0xAF, CHR 0xB7,
      CHR 0xE6, CHR 0xB1, CHR 0x82, CHR 0xE5, CHR 0xA4, CHR 0xB1, CHR 0xE8, CHR 0xB4, CHR 0xA5]"

definition text_cannot_read_stream :: string where
  "text_cannot_read_stream =
     [CHR 0xE6, CHR 0x97, CHR 0xA0, CHR 0xE6, CHR 0xB3, CHR 0x95, CHR 0xE8, CHR 0xAF, CHR 0xBB,
      CHR 0xE5, CHR 0x8F, CHR 0x96, CHR 0xE6, CHR 0xB5, CHR 0x81, CHR 0xE5, CHR 0x93, CHR 0x8D,
      CHR 0xE5, CHR 0xBA, CHR 0x94]"

text \<open>
  The streaming call shared by the DeepSeek, Kimi and Claude adapters, whose bodies differ
  in the name they log, the endpoint and the cost function: after the read loop they report
  a terminal chunk, and the outer \<open>catch\<close> wraps every error message. The result is the
  calls made to \<open>onChunk\<close> and either the message of the error thrown (\<open>Inl\<close>) or the
  response returned (\<open>Inr\<close>). \<open>responseTime\<close> is the measured duration.
\<close>

definition wrapping_sendMessageStream ::
  "string \<Rightarrow> (real \<Rightarrow> string \<Rightarrow> real) \<Rightarrow> js_library \<Rightarrow> string \<Rightarrow> fetch_outcome \<Rightarrow> real
     \<Rightarrow> StreamChunk list \<times> (string + ChatResponse)" where
  "wrapping_sendMessageStream name calculateCost js model outcome responseTime =
     (let wrap = (\<lambda>message. name @ '' Stream API'' @ word_error @ '': '' @
                    (if message = [] then text_stream_request_failed else message))
      in case outcome of
           FetchFailed message \<Rightarrow> ([], Inl (wrap message))
         | NotOk status statusText errorText \<Rightarrow>
             ([], Inl (wrap (''HTTP '' @ status @ '': '' @ statusText)))
         | NoBody \<Rightarrow> ([], Inl (wrap text_cannot_read_stream))
         | Body chunks ending \<Rightarrow>
             (let st = read_loop js chunks initial_stream_state
              in case ending of
                   Some message \<Rightarrow> (st_emitted st, Inl (wrap message))
                 | None \<Rightarrow>
                     (let st' = onChunk (terminal_chunk (st_tokens st)) st
                      in (st_emitted st',
                          Inr \<lparr>cr_content = st_content st', cr_tokens = st_tokens st',
                               cr_cost = Some (calculateCost (st_tokens st') model),
                               cr_responseTime = responseTime\<rparr>))))"

text \<open>
  The streaming call shared by the Aliyun and Volcengine adapters: nothing is reported
  after the read loop, and the outer \<open>catch\<close> rethrows the error as it is.
\<close>

definition rethrowing_sendMessageStream ::
  "(real \<Rightarrow> string \<Rightarrow> real) \<Rightarrow> js_library \<Rightarrow> string \<Rightarrow> fetch_outcome \<Rightarrow> real
     \<Rightarrow> StreamChunk list \<times> (string + ChatResponse)" where
  "rethrowing_sendMessageStream calculateCost js model outcome responseTime =
     (case outcome of
        FetchFailed message \<Rightarrow> ([], Inl message)
      | NotOk status statusText errorText \<Rightarrow>
          ([], Inl (''HTTP '' @ status @ '': '' @ statusText @ '' - '' @ errorText))
      | NoBody \<Rightarrow> ([], Inl text_cannot_read_stream)
      | Body chunks ending \<Rightarrow>
          (let st = read_loop js chunks initial_stream_state
           in case ending of
                Some message \<Rightarrow> (st_emitted st, Inl message)
              | None \<Rightarrow>
                  (st_emitted st,
                   Inr \<lparr>cr_content = st_content st, cr_tokens = st_tokens st,
                        cr_cost = Some (calculateCost (st_tokens st) model),
                        cr_responseTime = responseTime\<rparr>)))"

definition DeepSeekService_sendMessageStream ::
  "js_library \<Rightarrow> string \<Rightarrow> fetch_outcome \<Rightarrow> real \<Rightarrow> StreamChunk list \<times> (string + ChatResponse)" where
  "DeepSeekService_sendMessageStream =
     wrapping_sendMessageStream ''DeepSeek'' DeepSeekService_calculateCost"

definition AliyunService_sendMessageStream ::
  "js_library \<Rightarrow> string \<Rightarrow> fetch_outcome \<Rightarrow> real \<Rightarrow> StreamChunk list \<times> (string + ChatResponse)" where
  "AliyunService_sendMessageStream = rethrowing_sendMessageStream AliyunService_calculateCost"

definition VolcengineService_sendMessageStream ::
  "js_library \<Rightarrow> string \<Rightarrow> fetch_outcome \<Rightarrow> real \<Rightarrow> StreamChunk list \<times> (string + ChatResponse)" where
  "VolcengineService_sendMessageStream = rethrowing_sendMessageStream VolcengineService_calculateCost"

definition KimiService_sendMessageStream ::
  "js_library \<Rightarrow> string \<Rightarrow> fetch_outcome \<Rightarrow> real \<Rightarrow> StreamChunk list \<times> (string + ChatResponse)" where
  "KimiService_sendMessageStream = wrapping_sendMessageStream ''Kimi'' KimiService_calculateCost"

definition ClaudeService_sendMessageStream ::
  "js_library \<Rightarrow> string \<Rightarrow> fetch_outcome \<Rightarrow> real \<Rightarrow> StreamChunk list \<times> (string + ChatResponse)" where
  "ClaudeService_sendMessageStream = wrapping_sendMessageStream ''Claude'' ClaudeService_calculateCost"

text \<open>How many of the reported chunks are terminal (\<open>finished: true\<close>).\<close>

definition terminal_count :: "StreamChunk list \<Rightarrow> nat" where
  "terminal_count chunks = length (filter chunk_finished chunks)"

text \<open>Whether a chunk of the body has a \<open>data: [DONE]\<close> line.\<close>

definition has_done_line :: "string \<Rightarrow> bool" where
  "has_done_line chunk =
     list_ex (\<lambda>line. take 6 line = ''data: '' \<and> trim (drop 6 line) = ''[DONE]'') (split_lines chunk)"

text \<open>A library for the examples: it parses the one event text \<open>{}\<close>, to the empty object.\<close>

definition example_js :: js_library where
  "example_js =
     \<lparr>JSON_parse = (\<lambda>s. if s = ''{}'' then Some (JObj []) else None),
      JSON_stringify = (\<lambda>j. ''{}''),
      text_of = (\<lambda>j. []),
      number_of = (\<lambda>j. 0)\<rparr>"

subsection \<open>The service registry\<close>

definition provider_name :: "AIProvider \<Rightarrow> string" where
  "provider_name p = (case p of deepseek \<Rightarrow> ''deepseek'' | aliyun \<Rightarrow> ''aliyun''
                      | volcengine \<Rightarrow> ''volcengine'' | kimi \<Rightarrow> ''kimi'' | claude \<Rightarrow> ''claude'')"

text \<open>The registry maps a provider to the key its adapter instance was built with.\<close>

type_synonym services = "AIProvider \<Rightarrow> string option"

definition ChatService_setApiKey :: "AIProvider \<Rightarrow> string \<Rightarrow> services \<Rightarrow> services" where
  "ChatService_setApiKey provider apiKey svcs =
     (if trim apiKey \<noteq> [] then svcs(provider := Some apiKey) else svcs(provider := None))"

definition text_configure_first :: string where
  "text_configure_first =
     [CHR 0xE8, CHR 0xAF, CHR 0xB7, CHR 0xE5, CHR 0x85, CHR 0x88, CHR 0xE9, CHR 0x85, CHR 0x8D,
      CHR 0xE7, CHR 0xBD, CHR 0xAE, CHR 0x20]"

definition text_api_key :: string where
  "text_api_key =
     [CHR 0x20, CHR 0xE7, CHR 0x9A, CHR 0x84, CHR 0x41, CHR 0x50, CHR 0x49, CHR 0xE5, CHR 0xAF,
      CHR 0x86, CHR 0xE9, CHR 0x92, CHR 0xA5]"

text \<open>Without a registered adapter the call throws before anything is sent; \<open>fetched\<close> is
  what the network gives the adapter otherwise.\<close>

definition ChatService_sendMessageStream ::
  "services \<Rightarrow> js_library \<Rightarrow> AIProvider \<Rightarrow> string \<Rightarrow> fetch_outcome \<Rightarrow> real
     \<Rightarrow> StreamChunk list \<times> (string + ChatResponse)" where
  "ChatService_sendMessageStream svcs js provider model fetched responseTime =
     (case svcs provider of
        None \<Rightarrow> ([], Inl (text_configure_first @ provider_name provider @ text_api_key))
      | Some key \<Rightarrow>
          (case provider of
             deepseek \<Rightarrow> DeepSeekService_sendMessageStream js model fetched responseTime
           | aliyun \<Rightarrow> AliyunService_sendMessageStream js model fetched responseTime
           | volcengine \<Rightarrow> VolcengineService_sendMessageStream js model fetched responseTime
           | kimi \<Rightarrow> KimiService_sendMessageStream js model fetched responseTime
           | claude \<Rightarrow> ClaudeService_sendMessageStream js model fetched responseTime))"

section \<open>Sending one message to the selected models (App.tsx)\<close>

subsection \<open>The dispatch set\<close>


subsection \<open>The per-model tasks\<close>






text \<open>
  What reaches the store from a running task: a chunk handed to its callback, or the
  rejection of its adapter call, which its \<open>catch\<close> block receives. An event carries the id
  of the model whose task it belongs to and the values read from the clock at that moment.
\<close>

datatype task_signal = Chunk StreamChunk | Threw string




text \<open>The signals of one task, from the outcome of its adapter call: the chunks reported,
  then the rejection if the call threw.\<close>

definition task_signals :: "StreamChunk list \<times> (string + ChatResponse) \<Rightarrow> task_signal list" where
  "task_signals outcome =
     map Chunk (fst outcome) @ (case snd outcome of Inl message \<Rightarrow> [Threw message] | Inr r \<Rightarrow> [])"

text \<open>
  How the promise of a task settles. The \<open>try\<close> block holds the adapter call and the
  \<open>catch\<close> block returns normally, so the promise is fulfilled whichever way the call ended.
\<close>

datatype settled = Fulfilled | Rejected string









section \<open>Export and import of a session\<close>

subsection \<open>What \<open>JSON.stringify\<close> writes for a session\<close>







subsection \<open>A parsed value seen through the session type\<close>
















subsection \<open>The two store operations\<close>





section \<open>Properties of the store\<close>

lemma lookup_put_same [simp]:
  "lookup_response (put_response rs modelId messageId r) modelId messageId = Some r"
  by (simp add: lookup_response_def put_response_def update_conv')

lemma current_slot_append:
  assumes "current_slot state modelId messageId = Some r"
  shows "current_slot (appendToModelResponse modelId messageId delta now state) modelId messageId
           = Some (r\<lparr>resp_content := resp_content r @ delta\<rparr>)"
  using assms
  by (auto simp: current_slot_def appendToModelResponse_def commit_session_def
           split: option.splits)

lemma append_calls_slot:
  "current_slot state modelId messageId = Some r \<Longrightarrow>
   current_slot (append_calls modelId messageId calls state) modelId messageId
     = Some (r\<lparr>resp_content := resp_content r @ concat (map fst calls)\<rparr>)"
proof (induction calls arbitrary: state r)
  case Nil
  then show ?case by simp
next
  case (Cons c calls)
  obtain delta now where c: "c = (delta, now)" by (cases c)
  have "current_slot (appendToModelResponse modelId messageId delta now state) modelId messageId
          = Some (r\<lparr>resp_content := resp_content r @ delta\<rparr>)"
    using Cons.prems by (rule current_slot_append)
  from Cons.IH [OF this] show ?case by (simp add: c)
qed

text \<open>
  C2. On an existing response slot of the current session, any finite sequence of
  \<open>appendToModelResponse\<close> calls leaves the slot with its initial content followed by the
  deltas in call order; nothing else in the slot changes.
\<close>

theorem append_calls_concat:
  "current_slot state modelId messageId = Some r \<Longrightarrow>
   current_slot (append_calls modelId messageId calls state) modelId messageId
     = Some (r\<lparr>resp_content := resp_content r @ concat (map fst calls)\<rparr>)"
  by (rule append_calls_slot)

theorem append_calls_concat_witness:
  "current_slot example_state ''deepseek-chat'' ''m1'' = Some example_response \<and>
   current_slot (append_calls ''deepseek-chat'' ''m1''
                   [(''l'', ''2025-06-01T10:00:02.000Z''), (''lo'', ''2025-06-01T10:00:03.000Z'')]
                   example_state) ''deepseek-chat'' ''m1''
     = Some (example_response\<lparr>resp_content := ''Hello''\<rparr>)"
proof -
  have h: "current_slot example_state ''deepseek-chat'' ''m1'' = Some example_response"
    by (simp add: current_slot_def example_state_def example_session_def lookup_response_def)
  show ?thesis
    using h append_calls_concat [OF h, of "[(''l'', ''2025-06-01T10:00:02.000Z''), (''lo'', ''2025-06-01T10:00:03.000Z'')]"]
    by (simp add: example_response_def)
qed



text \<open>
  C10. Toggling the same model twice restores the membership of \<open>selectedModels\<close>: an id is
  selected afterwards exactly when it was selected before. The list itself is the old list
  with \<open>modelId\<close> removed and, if it was selected, put back once at the end; no other part
  of the state changes.
\<close>

theorem toggleModel_twice:
  "set (selectedModels (toggleModel modelId (toggleModel modelId state))) = set (selectedModels state)
   \<and> toggleModel modelId (toggleModel modelId state) =
       state\<lparr>selectedModels :=
               filter (\<lambda>i. i \<noteq> modelId) (selectedModels state) @
               (if modelId \<in> set (selectedModels state) then [modelId] else [])\<rparr>"
  by (auto simp: toggleModel_def Let_def)

subsection \<open>What an append leaves alone\<close>




lemma commit_session_current [simp]:
  "currentSession (commit_session u state) = Some u"
  by (simp add: commit_session_def)












subsection \<open>The current session and its list entry\<close>

lemma in_sync_imp_upto: "in_sync state \<Longrightarrow> in_sync_upto_updatedAt state"
  by (auto simp: in_sync_def in_sync_upto_updatedAt_def list_all_iff split: option.splits)

lemma in_sync_commit: "in_sync (commit_session u state)"
  by (auto simp: in_sync_def commit_session_def list_all_iff)

lemma list_all_map_enumerate:
  "(\<And>i s. s \<in> set xs \<Longrightarrow> P (f i s)) \<Longrightarrow> list_all P (map (\<lambda>(i, s). f i s) (enumerate n xs))"
  by (induction xs arbitrary: n) auto

lemma upto_addModelResponse:
  "in_sync_upto_updatedAt state \<Longrightarrow> in_sync_upto_updatedAt (addModelResponse m k r now state)"
  by (simp add: addModelResponse_def in_sync_imp_upto in_sync_commit split: option.splits)

lemma upto_updateModelResponse:
  "in_sync_upto_updatedAt state \<Longrightarrow> in_sync_upto_updatedAt (updateModelResponse m k u now state)"
  by (simp add: updateModelResponse_def in_sync_imp_upto in_sync_commit split: option.splits)

lemma upto_appendToModelResponse:
  "in_sync_upto_updatedAt state \<Longrightarrow> in_sync_upto_updatedAt (appendToModelResponse m k d now state)"
  by (simp add: appendToModelResponse_def in_sync_imp_upto in_sync_commit split: option.splits)

lemma retitle_upto:
  "s\<lparr>sess_updatedAt := sess_updatedAt cur\<rparr> = cur \<Longrightarrow>
   s\<lparr>sess_title := t, sess_updatedAt := c\<rparr> = cur\<lparr>sess_title := t, sess_updatedAt := c\<rparr>"
  by (cases s, cases cur) simp

lemma upto_updateSessionTitle:
  assumes "in_sync_upto_updatedAt state"
  shows "in_sync_upto_updatedAt (updateSessionTitle sid title entryClock currentClock state)"
proof (cases "currentSession state")
  case None
  then show ?thesis by (simp add: in_sync_upto_updatedAt_def updateSessionTitle_def)
next
  case (Some cur)
  have pre: "\<And>s. s \<in> set (sessions state) \<Longrightarrow> sess_id s = sess_id cur \<Longrightarrow>
               s\<lparr>sess_updatedAt := sess_updatedAt cur\<rparr> = cur"
    using assms Some by (auto simp: in_sync_upto_updatedAt_def list_all_iff)
  define cur' where "cur' = (if sess_id cur = sid
      then cur\<lparr>sess_title := Some title, sess_updatedAt := currentClock\<rparr> else cur)"
  have entry: "sess_id (if sess_id s = sid then s\<lparr>sess_title := Some title, sess_updatedAt := entryClock i\<rparr> else s) = sess_id cur'
      \<longrightarrow> (if sess_id s = sid then s\<lparr>sess_title := Some title, sess_updatedAt := entryClock i\<rparr> else s)
            \<lparr>sess_updatedAt := sess_updatedAt cur'\<rparr> = cur'"
    if "s \<in> set (sessions state)" for i s
  proof (cases "sess_id s = sess_id cur")
    case True
    from pre [OF that True] show ?thesis
      by (simp add: cur'_def retitle_upto True)
  next
    case False
    then show ?thesis by (auto simp: cur'_def)
  qed
  have "list_all (\<lambda>s. sess_id s = sess_id cur' \<longrightarrow> s\<lparr>sess_updatedAt := sess_updatedAt cur'\<rparr> = cur')
          (map (\<lambda>(i, s). if sess_id s = sid then s\<lparr>sess_title := Some title, sess_updatedAt := entryClock i\<rparr> else s)
             (enumerate 0 (sessions state)))"
    by (rule list_all_map_enumerate) (rule entry)
  moreover have "currentSession (updateSessionTitle sid title entryClock currentClock state) = Some cur'"
    by (simp add: updateSessionTitle_def Let_def Some cur'_def)
  moreover have "sessions (updateSessionTitle sid title entryClock currentClock state) =
      map (\<lambda>(i, s). if sess_id s = sid then s\<lparr>sess_title := Some title, sess_updatedAt := entryClock i\<rparr> else s)
        (enumerate 0 (sessions state))"
    by (simp add: updateSessionTitle_def Let_def)
  ultimately show ?thesis
    by (simp add: in_sync_upto_updatedAt_def)
qed

lemma upto_addMessage:
  assumes "in_sync_upto_updatedAt state"
  shows "in_sync_upto_updatedAt (fst (snd (addMessage content images env state)))"
proof (cases "currentSession state")
  case None
  show ?thesis
    unfolding in_sync_upto_updatedAt_def addMessage_def createNewSession_def Let_def
    using None
    by (auto intro!: list_all_map_enumerate)
next
  case (Some cur)
  then show ?thesis
    by (simp add: addMessage_def Let_def in_sync_imp_upto in_sync_commit)
qed

lemma sync_updateSessionTitle_same_clock:
  assumes "in_sync state"
  shows "in_sync (updateSessionTitle sid title (\<lambda>i. now) now state)"
proof (cases "currentSession state")
  case None
  then show ?thesis by (simp add: in_sync_def updateSessionTitle_def)
next
  case (Some cur)
  have pre: "\<And>s. s \<in> set (sessions state) \<Longrightarrow> sess_id s = sess_id cur \<Longrightarrow> s = cur"
    using assms Some by (auto simp: in_sync_def list_all_iff)
  define cur' where "cur' = (if sess_id cur = sid
      then cur\<lparr>sess_title := Some title, sess_updatedAt := now\<rparr> else cur)"
  have entry: "sess_id (if sess_id s = sid then s\<lparr>sess_title := Some title, sess_updatedAt := now\<rparr> else s) = sess_id cur'
      \<longrightarrow> (if sess_id s = sid then s\<lparr>sess_title := Some title, sess_updatedAt := now\<rparr> else s) = cur'"
    if "s \<in> set (sessions state)" for i :: nat and s
  proof (cases "sess_id s = sess_id cur")
    case True
    from pre [OF that True] show ?thesis
      by (simp add: cur'_def)
  next
    case False
    then show ?thesis by (auto simp: cur'_def)
  qed
  have "list_all (\<lambda>s. sess_id s = sess_id cur' \<longrightarrow> s = cur')
          (map (\<lambda>(i, s). if sess_id s = sid then s\<lparr>sess_title := Some title, sess_updatedAt := now\<rparr> else s)
             (enumerate 0 (sessions state)))"
    by (rule list_all_map_enumerate) (rule entry)
  moreover have "currentSession (updateSessionTitle sid title (\<lambda>i. now) now state) = Some cur'"
    by (simp add: updateSessionTitle_def Let_def Some cur'_def)
  moreover have "sessions (updateSessionTitle sid title (\<lambda>i. now) now state) =
      map (\<lambda>(i, s). if sess_id s = sid then s\<lparr>sess_title := Some title, sess_updatedAt := now\<rparr> else s)
        (enumerate 0 (sessions state))"
    by (simp add: updateSessionTitle_def Let_def)
  ultimately show ?thesis
    by (simp add: in_sync_def)
qed

lemma sync_addMessage:
  assumes "currentSession state \<noteq> None \<or> env_entryClock env = (\<lambda>i. env_currentClock env)"
  shows "in_sync (fst (snd (addMessage content images env state)))"
proof (cases "currentSession state")
  case None
  with assms have "env_entryClock env = (\<lambda>i. env_currentClock env)" by simp
  then show ?thesis
    unfolding in_sync_def addMessage_def createNewSession_def Let_def
    using None
    by (auto intro!: list_all_map_enumerate)
next
  case (Some cur)
  then show ?thesis
    by (simp add: addMessage_def Let_def in_sync_commit)
qed

lemma sync_slot_ops:
  "in_sync state \<Longrightarrow> in_sync (addModelResponse m k r now state)"
  "in_sync state \<Longrightarrow> in_sync (updateModelResponse m k u now state)"
  "in_sync state \<Longrightarrow> in_sync (appendToModelResponse m k d now state)"
  by (simp_all add: addModelResponse_def updateModelResponse_def appendToModelResponse_def
        in_sync_commit split: option.splits)

text \<open>
  C9, as the code has it. Each of \<open>addMessage\<close>, \<open>addModelResponse\<close>,
  \<open>updateModelResponse\<close>, \<open>appendToModelResponse\<close> and \<open>updateSessionTitle\<close> keeps every
  list entry that carries the current session's id equal to the current session in all
  fields other than \<open>updatedAt\<close>. The three slot operations and \<open>addMessage\<close> on an existing
  session keep the two equal in \<open>updatedAt\<close> as well; \<open>updateSessionTitle\<close>, and \<open>addMessage\<close>
  when it has to create the session, do so when the clock reads they take for the list
  entries and for the current session return the same instant.
\<close>

theorem store_ops_keep_sync_upto_updatedAt:
  "(in_sync_upto_updatedAt state \<longrightarrow>
      in_sync_upto_updatedAt (fst (snd (addMessage content images env state))) \<and>
      in_sync_upto_updatedAt (addModelResponse modelId messageId response now state) \<and>
      in_sync_upto_updatedAt (updateModelResponse modelId messageId updates now state) \<and>
      in_sync_upto_updatedAt (appendToModelResponse modelId messageId delta now state) \<and>
      in_sync_upto_updatedAt (updateSessionTitle sessionId title entryClock currentClock state)) \<and>
   (in_sync state \<longrightarrow>
      (currentSession state \<noteq> None \<or> env_entryClock env = (\<lambda>i. env_currentClock env) \<longrightarrow>
         in_sync (fst (snd (addMessage content images env state)))) \<and>
      in_sync (addModelResponse modelId messageId response now state) \<and>
      in_sync (updateModelResponse modelId messageId updates now state) \<and>
      in_sync (appendToModelResponse modelId messageId delta now state) \<and>
      in_sync (updateSessionTitle sessionId title (\<lambda>i. now) now state))"
  by (simp add: upto_addMessage upto_addModelResponse upto_updateModelResponse
        upto_appendToModelResponse upto_updateSessionTitle sync_addMessage sync_slot_ops
        sync_updateSessionTitle_same_clock)

theorem store_ops_keep_sync_upto_updatedAt_witness:
  "in_sync_upto_updatedAt example_state \<and> in_sync example_state \<and>
   currentSession example_state \<noteq> None \<and>
   in_sync_upto_updatedAt (fst (snd (addMessage ''Hi'' None example_env example_state))) \<and>
   in_sync_upto_updatedAt
     (updateSessionTitle ''s1'' ''Hi'' (\<lambda>i. ''2025-06-01T10:00:05.000Z'') ''2025-06-01T10:00:05.001Z'' example_state) \<and>
   in_sync (fst (snd (addMessage ''Hi'' None example_env example_state))) \<and>
   in_sync (appendToModelResponse ''deepseek-chat'' ''m1'' ''llo'' ''2025-06-01T10:00:05.000Z'' example_state) \<and>
   in_sync (updateSessionTitle ''s1'' ''Hi'' (\<lambda>i. ''2025-06-01T10:00:05.000Z'') ''2025-06-01T10:00:05.000Z'' example_state)"
proof -
  have h1: "in_sync example_state"
    by (simp add: in_sync_def example_state_def example_session_def fresh_session_def)
  have h2: "in_sync_upto_updatedAt example_state"
    by (simp add: in_sync_upto_updatedAt_def example_state_def example_session_def fresh_session_def)
  have h3: "currentSession example_state \<noteq> None"
    by (simp add: example_state_def)
  show ?thesis
    using h1 h2 h3
      store_ops_keep_sync_upto_updatedAt [of example_state "''Hi''" None example_env
        "''deepseek-chat''" "''m1''" example_response "''2025-06-01T10:00:05.000Z''"
        "\<lparr>upd_modelId = None, upd_content = None, upd_loading = None, upd_error = None,
          upd_responseTime = None, upd_tokens = None, upd_cost = None, upd_timestamp = None\<rparr>"
        "''llo''" "''s1''" "''Hi''" "\<lambda>i. ''2025-06-01T10:00:05.000Z''" "''2025-06-01T10:00:05.001Z''"]
    by simp
qed

text \<open>
  C9, as stated, fails: \<open>updateSessionTitle\<close> stamps the list entry and the current session
  with two separate clock reads, and when the clock ticks between them the two values differ
  in \<open>updatedAt\<close>.
\<close>

theorem updateSessionTitle_breaks_sync:
  "in_sync example_state \<and>
   \<not> in_sync (updateSessionTitle ''s1'' ''Hi'' (\<lambda>i. ''2025-06-01T10:00:05.000Z'')
                ''2025-06-01T10:00:05.001Z'' example_state)"
  by (simp add: in_sync_def example_state_def updateSessionTitle_def example_session_def fresh_session_def)

section \<open>Properties of the adapters\<close>




subsection \<open>Terminal chunks of a stream that is read to its end\<close>

lemma terminal_count_onChunk:
  "terminal_count (st_emitted (onChunk c st)) =
     terminal_count (st_emitted st) + (if chunk_finished c then 1 else 0)"
  by (simp add: terminal_count_def onChunk_def)

lemma terminal_count_handle_event:
  "terminal_count (st_emitted (handle_event js data st)) = terminal_count (st_emitted st)"
  by (simp add: handle_event_def Let_def terminal_count_onChunk delta_chunk_def
           split: option.splits json.splits)

lemma terminal_count_handle_lines:
  "terminal_count (st_emitted (handle_lines js lines st)) =
     terminal_count (st_emitted st) +
     (if list_ex (\<lambda>line. take 6 line = ''data: '' \<and> trim (drop 6 line) = ''[DONE]'') lines
      then 1 else 0)"
proof (induction lines arbitrary: st)
  case Nil
  then show ?case by simp
next
  case (Cons line rest)
  show ?case
    by (simp add: Let_def Cons.IH terminal_count_onChunk terminal_count_handle_event
          terminal_chunk_def)
qed

lemma terminal_count_read_loop:
  "terminal_count (st_emitted (read_loop js chunks st)) =
     terminal_count (st_emitted st) + length (filter has_done_line chunks)"
  by (induction chunks arbitrary: st)
     (simp_all add: terminal_count_handle_lines has_done_line_def)

lemma terminal_count_initial: "terminal_count (st_emitted initial_stream_state) = 0"
  by (simp add: terminal_count_def initial_stream_state_def)

lemma wrapping_terminal_count:
  "terminal_count (fst (wrapping_sendMessageStream name cost js model (Body chunks None) t)) =
     Suc (length (filter has_done_line chunks))"
  by (simp add: wrapping_sendMessageStream_def Let_def terminal_count_onChunk
        terminal_count_read_loop terminal_chunk_def terminal_count_initial)

lemma rethrowing_terminal_count:
  "terminal_count (fst (rethrowing_sendMessageStream cost js model (Body chunks None) t)) =
     length (filter has_done_line chunks)"
  by (simp add: rethrowing_sendMessageStream_def Let_def
        terminal_count_read_loop terminal_count_initial)

lemma terminal_chunks_per_adapter:
  "terminal_count (fst (DeepSeekService_sendMessageStream js model (Body chunks None) t))
     = Suc (length (filter has_done_line chunks)) \<and>
   terminal_count (fst (KimiService_sendMessageStream js model (Body chunks None) t))
     = Suc (length (filter has_done_line chunks)) \<and>
   terminal_count (fst (ClaudeService_sendMessageStream js model (Body chunks None) t))
     = Suc (length (filter has_done_line chunks)) \<and>
   terminal_count (fst (AliyunService_sendMessageStream js model (Body chunks None) t))
     = length (filter has_done_line chunks) \<and>
   terminal_count (fst (VolcengineService_sendMessageStream js model (Body chunks None) t))
     = length (filter has_done_line chunks)"
  by (simp add: DeepSeekService_sendMessageStream_def KimiService_sendMessageStream_def
        ClaudeService_sendMessageStream_def AliyunService_sendMessageStream_def
        VolcengineService_sendMessageStream_def wrapping_terminal_count rethrowing_terminal_count)

text \<open>
  C1 asks for exactly one terminal chunk whenever the response is OK and the body is read
  to its end, with or without a \<open>data: [DONE]\<close> line. The adapters report one terminal
  chunk for each body chunk that carries a \<open>[DONE]\<close> line, and the DeepSeek, Kimi and Claude
  adapters one more after the loop. Two inputs show it. The Aliyun adapter, on a body with
  one event and no \<open>[DONE]\<close>, returns its response having reported no chunk at all. The
  DeepSeek adapter, on a body that is the \<open>[DONE]\<close> line alone, reports two terminal chunks.
\<close>

theorem stream_terminal_chunk_not_once:
  "AliyunService_sendMessageStream example_js ''qwen-turbo'' (Body [''data: {}'' @ [CHR 0x0A]] None) 120
     = ([], Inr \<lparr>cr_content = [], cr_tokens = 0, cr_cost = Some 0, cr_responseTime = 120\<rparr>) \<and>
   fst (DeepSeekService_sendMessageStream example_js ''deepseek-chat''
          (Body [''data: [DONE]'' @ [CHR 0x0A]] None) 120)
     = [terminal_chunk 0, terminal_chunk 0]"
  by (simp add: AliyunService_sendMessageStream_def rethrowing_sendMessageStream_def
        DeepSeekService_sendMessageStream_def wrapping_sendMessageStream_def
        initial_stream_state_def trim_def is_space_def handle_event_def example_js_def
        onChunk_def AliyunService_calculateCost_def Let_def)

section \<open>Properties of the fan-out\<close>















lemma current_slot_setLoading [simp]:
  "current_slot (setLoading b state) m k = current_slot state m k"
  "current_slot (state\<lparr>isLoading := b\<rparr>) m k = current_slot state m k"
  by (simp_all add: current_slot_def setLoading_def)




lemma addMessage_leaves_current:
  "currentSession (fst (snd (addMessage content images env state))) \<noteq> None"
  by (simp add: addMessage_def createNewSession_def Let_def split: option.splits)




section \<open>Properties of the dispatch set\<close>


text \<open>Such a call is not sent to the network when no adapter is registered for the
  provider: it throws at once, and the task's \<open>catch\<close> block receives the message.\<close>

lemma unregistered_provider_throws:
  "svcs provider = None \<Longrightarrow>
   task_signals (ChatService_sendMessageStream svcs js provider model fetched responseTime)
     = [Threw (text_configure_first @ provider_name provider @ text_api_key)]"
  by (simp add: ChatService_sendMessageStream_def task_signals_def)



section \<open>Properties of export and import\<close>












end
